theory Spec2Isabelle
  imports Complex_Main
begin

section \<open>Value objects (core/objects.py)\<close>

text \<open>
  Python's \<^verbatim>\<open>Decimal\<close> is modelled by the rationals: sums, differences and products of
  decimals are exact in both; a quotient is exact here, where Python rounds it to the 28
  significant digits of the default context.
\<close>

type_synonym decimal = rat

text \<open>
  \<^verbatim>\<open>Decimal(str(value)).quantize(Decimal(10) ** -precision, rounding=ROUND_HALF_UP)\<close>:
  round to \<open>p\<close> digits after the point, ties away from zero.
\<close>

definition quantize :: "nat \<Rightarrow> decimal \<Rightarrow> decimal" where
  "quantize p x =
     (if 0 \<le> x then of_int \<lfloor>x * 10 ^ p + 1 / 2\<rfloor> / 10 ^ p
      else - (of_int \<lfloor>- x * 10 ^ p + 1 / 2\<rfloor> / 10 ^ p))"

text \<open>A decimal that has at most \<open>p\<close> digits after the point.\<close>

definition on_grid :: "nat \<Rightarrow> decimal \<Rightarrow> bool" where
  "on_grid p x \<longleftrightarrow> of_int \<lfloor>x * 10 ^ p\<rfloor> = x * 10 ^ p"

record price =
  px_value :: decimal
  px_precision :: nat

definition Price :: "decimal \<Rightarrow> nat \<Rightarrow> price" where
  "Price v p = \<lparr>px_value = quantize p v, px_precision = p\<rparr>"

record qty =
  qty_value :: decimal
  qty_precision :: nat

definition Quantity :: "decimal \<Rightarrow> nat \<Rightarrow> qty" where
  "Quantity v p = \<lparr>qty_value = quantize p v, qty_precision = p\<rparr>"

definition qty_zero :: "nat \<Rightarrow> qty" where
  "qty_zero p = Quantity 0 p"

definition qty_is_zero :: "qty \<Rightarrow> bool" where
  "qty_is_zero q \<longleftrightarrow> qty_value q = 0"

text \<open>A currency is compared and hashed by its code alone.\<close>

record currency =
  code :: string
  cur_precision :: nat

record money =
  amount :: decimal
  money_currency :: currency

definition Money :: "decimal \<Rightarrow> currency \<Rightarrow> money" where
  "Money a c = \<lparr>amount = quantize (cur_precision c) a, money_currency = c\<rparr>"


section \<open>Enumerations (core/enums.py)\<close>

datatype order_side = BUY | SELL | NO_ORDER_SIDE

datatype order_type_t =
    MARKET | LIMIT | STOP_MARKET | STOP_LIMIT | MARKET_IF_TOUCHED | LIMIT_IF_TOUCHED
  | TRAILING_STOP_MARKET | TRAILING_STOP_LIMIT

datatype time_in_force_t = GTC | IOC | FOK | GTD | DAY | AT_THE_OPEN | AT_THE_CLOSE

datatype order_status =
    INITIALIZED | DENIED | SUBMITTED | ACCEPTED | REJECTED | CANCELED | EXPIRED
  | TRIGGERED | PENDING_UPDATE | PENDING_CANCEL | PARTIALLY_FILLED | FILLED

datatype contingency_type_t = NO_CONTINGENCY | OCO | OTO | OUO

datatype trailing_offset_type_t = PRICE | BASIS_POINTS | TICKS | PIPS

datatype liquidity_side_t = NO_LIQUIDITY_SIDE | MAKER | TAKER

text \<open>\<^verbatim>\<open>ORDER_STATUS_TRANSITIONS\<close>; a status that is no key of the dict has no entry.\<close>

fun ORDER_STATUS_TRANSITIONS :: "order_status \<Rightarrow> order_status list option" where
  "ORDER_STATUS_TRANSITIONS INITIALIZED = Some [DENIED, SUBMITTED]"
| "ORDER_STATUS_TRANSITIONS SUBMITTED = Some [ACCEPTED, REJECTED, CANCELED]"
| "ORDER_STATUS_TRANSITIONS ACCEPTED =
     Some [CANCELED, EXPIRED, TRIGGERED, PENDING_UPDATE, PENDING_CANCEL,
           PARTIALLY_FILLED, FILLED]"
| "ORDER_STATUS_TRANSITIONS TRIGGERED =
     Some [CANCELED, EXPIRED, PENDING_UPDATE, PENDING_CANCEL, PARTIALLY_FILLED, FILLED]"
| "ORDER_STATUS_TRANSITIONS PENDING_UPDATE =
     Some [ACCEPTED, CANCELED, EXPIRED, TRIGGERED, PARTIALLY_FILLED, FILLED]"
| "ORDER_STATUS_TRANSITIONS PENDING_CANCEL =
     Some [CANCELED, ACCEPTED, PARTIALLY_FILLED, FILLED]"
| "ORDER_STATUS_TRANSITIONS PARTIALLY_FILLED =
     Some [CANCELED, EXPIRED, PENDING_UPDATE, PENDING_CANCEL, PARTIALLY_FILLED, FILLED]"
| "ORDER_STATUS_TRANSITIONS _ = None"

section \<open>Order events (core/events.py)\<close>

text \<open>
  Identifiers are non-empty strings; an instrument identifier is its printed form
  \<^verbatim>\<open>SYMBOL.VENUE\<close>. The events keep the fields that the order, the position and the
  account read; trader, strategy and account identifiers, \<^verbatim>\<open>ts_init\<close> and the random
  \<^verbatim>\<open>event_id\<close> are left out.
\<close>

type_synonym client_order_id = string
type_synonym venue_order_id = string
type_synonym position_id = string

record order_filled =
  fill_instrument_id :: string
  fill_client_order_id :: client_order_id
  fill_venue_order_id :: "venue_order_id option"
  fill_trade_id :: string
  fill_order_side :: order_side
  fill_order_type :: order_type_t
  last_qty :: qty
  last_px :: price
  commission :: money
  liquidity_side :: liquidity_side_t
  fill_position_id :: "position_id option"
  fill_ts_event :: int

text \<open>
  \<open>OtherEvent\<close> stands for any object that is none of the twelve order event classes
  (the argument is its \<^verbatim>\<open>ts_event\<close>).
\<close>

datatype order_event =
    OrderInitialized client_order_id int
  | OrderDenied client_order_id int
  | OrderSubmitted client_order_id int
  | OrderAccepted client_order_id "venue_order_id option" int
  | OrderRejected client_order_id int
  | OrderCanceled client_order_id "venue_order_id option" int
  | OrderExpired client_order_id "venue_order_id option" int
  | OrderTriggered client_order_id "venue_order_id option" int
  | OrderPendingUpdate client_order_id "venue_order_id option" int
  | OrderPendingCancel client_order_id "venue_order_id option" int
  | OrderUpdated client_order_id "venue_order_id option" "qty option" "price option"
      "price option" int
  | OrderFilled order_filled
  | OtherEvent int

fun ts_event :: "order_event \<Rightarrow> int" where
  "ts_event (OrderInitialized _ t) = t"
| "ts_event (OrderDenied _ t) = t"
| "ts_event (OrderSubmitted _ t) = t"
| "ts_event (OrderAccepted _ _ t) = t"
| "ts_event (OrderRejected _ t) = t"
| "ts_event (OrderCanceled _ _ t) = t"
| "ts_event (OrderExpired _ _ t) = t"
| "ts_event (OrderTriggered _ _ t) = t"
| "ts_event (OrderPendingUpdate _ _ t) = t"
| "ts_event (OrderPendingCancel _ _ t) = t"
| "ts_event (OrderUpdated _ _ _ _ _ t) = t"
| "ts_event (OrderFilled f) = fill_ts_event f"
| "ts_event (OtherEvent t) = t"

text \<open>\<^verbatim>\<open>_EVENT_TO_STATUS.get(type(event))\<close>.\<close>

fun EVENT_TO_STATUS :: "order_event \<Rightarrow> order_status option" where
  "EVENT_TO_STATUS (OrderInitialized _ _) = Some INITIALIZED"
| "EVENT_TO_STATUS (OrderDenied _ _) = Some DENIED"
| "EVENT_TO_STATUS (OrderSubmitted _ _) = Some SUBMITTED"
| "EVENT_TO_STATUS (OrderAccepted _ _ _) = Some ACCEPTED"
| "EVENT_TO_STATUS (OrderRejected _ _) = Some REJECTED"
| "EVENT_TO_STATUS (OrderCanceled _ _ _) = Some CANCELED"
| "EVENT_TO_STATUS (OrderExpired _ _ _) = Some EXPIRED"
| "EVENT_TO_STATUS (OrderTriggered _ _ _) = Some TRIGGERED"
| "EVENT_TO_STATUS (OrderPendingUpdate _ _ _) = Some PENDING_UPDATE"
| "EVENT_TO_STATUS (OrderPendingCancel _ _ _) = Some PENDING_CANCEL"
| "EVENT_TO_STATUS _ = None"

section \<open>Orders (model/orders)\<close>

text \<open>
  The concrete class of an order decides which attributes it has (\<^verbatim>\<open>hasattr\<close>) and
  which \<^verbatim>\<open>_apply_updated\<close> override runs.
\<close>

datatype order_class =
    MarketOrder | LimitOrder | StopMarketOrder | StopLimitOrder | MarketIfTouchedOrder
  | LimitIfTouchedOrder | TrailingStopMarketOrder | TrailingStopLimitOrder

fun has_price :: "order_class \<Rightarrow> bool" where
  "has_price LimitOrder = True"
| "has_price StopLimitOrder = True"
| "has_price LimitIfTouchedOrder = True"
| "has_price TrailingStopLimitOrder = True"
| "has_price _ = False"

fun has_trigger_price :: "order_class \<Rightarrow> bool" where
  "has_trigger_price MarketOrder = False"
| "has_trigger_price LimitOrder = False"
| "has_trigger_price _ = True"

text \<open>
  One record for all order classes; a field that a class does not have is \<open>None\<close> (or
  its default) and is guarded by \<open>has_price\<close> and \<open>has_trigger_price\<close> where the
  source asks \<^verbatim>\<open>hasattr\<close>. Fields that no modelled function reads (trader, strategy and
  instrument identifiers, \<^verbatim>\<open>reduce_only\<close>, \<^verbatim>\<open>expire_time_ns\<close>, \<^verbatim>\<open>display_qty\<close>,
  \<^verbatim>\<open>tags\<close>, \<^verbatim>\<open>linked_order_ids\<close>, \<^verbatim>\<open>parent_order_id\<close>, \<^verbatim>\<open>slippage\<close>,
  \<^verbatim>\<open>ts_init\<close>) are left out.
\<close>

record order =
  cls :: order_class
  client_order_id :: client_order_id
  venue_order_id :: "venue_order_id option"
  side :: order_side
  order_type :: order_type_t
  quantity :: qty
  time_in_force :: time_in_force_t
  post_only :: bool
  contingency_type :: contingency_type_t
  order_list_id :: "string option"
  status :: order_status
  filled_qty :: qty
  leaves_qty :: qty
  avg_px :: decimal
  position_id :: "position_id option"
  events :: "order_event list"
  ts_last :: int
  price :: "price option"
  trigger_price :: "price option"
  trailing_offset :: decimal
  trailing_offset_type :: trailing_offset_type_t
  extreme_price :: "decimal option"
  is_triggered :: bool
  is_activated :: bool
  limit_offset :: decimal

definition is_open :: "order \<Rightarrow> bool" where
  "is_open ord \<longleftrightarrow>
     status ord \<in> {ACCEPTED, TRIGGERED, PENDING_UPDATE, PENDING_CANCEL, PARTIALLY_FILLED}"

definition is_closed :: "order \<Rightarrow> bool" where
  "is_closed ord \<longleftrightarrow> status ord \<in> {DENIED, REJECTED, CANCELED, EXPIRED, FILLED}"

definition is_filled :: "order \<Rightarrow> bool" where
  "is_filled ord \<longleftrightarrow> status ord = FILLED"

text \<open>
  An exception leaves the mutations made before it in place, and the execution engine
  catches \<^verbatim>\<open>RuntimeError\<close> and goes on with the same order object. So applying an
  event returns the order as it is afterwards together with the exception, if any.
\<close>

datatype error =
    InvalidTransition order_status order_status
  | UnknownEventType
  | AttributeError
  | ZeroDivision
  | EmptyRange
  | HandlerError string

type_synonym 'a outcome = "error option \<times> 'a"

text \<open>\<^verbatim>\<open>Order._transition\<close>.\<close>

definition transition :: "order_status \<Rightarrow> order \<Rightarrow> order outcome" where
  "transition new_status ord =
     (let valid = (case ORDER_STATUS_TRANSITIONS (status ord) of None \<Rightarrow> [] | Some vs \<Rightarrow> vs)
      in if new_status \<notin> set valid
         then (Some (InvalidTransition (status ord) new_status), ord)
         else (None, ord\<lparr>status := new_status\<rparr>))"

text \<open>\<^verbatim>\<open>Order._apply_filled\<close>.\<close>

definition apply_filled :: "order_filled \<Rightarrow> order \<Rightarrow> order outcome" where
  "apply_filled event ord =
     (let fill_qty = qty_value (last_qty event);
          fill_px = px_value (last_px event);
          prev_filled = qty_value (filled_qty ord);
          new_filled = prev_filled + fill_qty;
          o1 = (if new_filled > 0
                then ord\<lparr>avg_px := (avg_px ord * prev_filled + fill_px * fill_qty) / new_filled\<rparr>
                else ord);
          o2 = o1\<lparr>filled_qty := Quantity new_filled (qty_precision (quantity o1)),
                  leaves_qty := Quantity (max 0 (qty_value (quantity o1) - new_filled))
                                  (qty_precision (quantity o1))\<rparr>;
          o3 = (case fill_venue_order_id event of
                  Some v \<Rightarrow> o2\<lparr>venue_order_id := Some v\<rparr> | None \<Rightarrow> o2);
          o4 = (case fill_position_id event of
                  Some p \<Rightarrow> o3\<lparr>position_id := Some p\<rparr> | None \<Rightarrow> o3);
          new_status = (if qty_is_zero (leaves_qty o4) then FILLED else PARTIALLY_FILLED)
      in transition new_status o4)"

text \<open>
  \<^verbatim>\<open>_apply_updated\<close>: the base method, then the override of the order's class, which
  runs only when the base method has returned.
\<close>

definition apply_updated_base :: "qty option \<Rightarrow> order \<Rightarrow> order outcome" where
  "apply_updated_base new_qty ord =
     (let o1 = (case new_qty of
                  None \<Rightarrow> ord
                | Some q \<Rightarrow> ord\<lparr>quantity := q,
                               leaves_qty := Quantity (max 0 (qty_value q - qty_value (filled_qty ord)))
                                               (qty_precision q)\<rparr>)
      in transition ACCEPTED o1)"

definition updates_price :: "order_class \<Rightarrow> bool" where
  "updates_price c \<longleftrightarrow> c \<in> {LimitOrder, StopLimitOrder, LimitIfTouchedOrder}"

definition updates_trigger_price :: "order_class \<Rightarrow> bool" where
  "updates_trigger_price c \<longleftrightarrow>
     c \<in> {StopMarketOrder, StopLimitOrder, MarketIfTouchedOrder, LimitIfTouchedOrder,
          TrailingStopMarketOrder, TrailingStopLimitOrder}"

definition apply_updated ::
  "qty option \<Rightarrow> price option \<Rightarrow> price option \<Rightarrow> order \<Rightarrow> order outcome" where
  "apply_updated new_qty new_price new_trigger ord =
     (case apply_updated_base new_qty ord of
        (Some e, o1) \<Rightarrow> (Some e, o1)
      | (None, o1) \<Rightarrow>
          (let o2 = (case new_price of
                       Some p \<Rightarrow> if updates_price (cls o1) then o1\<lparr>price := Some p\<rparr> else o1
                     | None \<Rightarrow> o1);
               o3 = (case new_trigger of
                       Some t \<Rightarrow> if updates_trigger_price (cls o2)
                                 then o2\<lparr>trigger_price := Some t\<rparr> else o2
                     | None \<Rightarrow> o2)
           in (None, o3)))"

text \<open>The side effect of \<^verbatim>\<open>apply\<close> on \<^verbatim>\<open>OrderAccepted\<close> and \<^verbatim>\<open>OrderTriggered\<close>.\<close>

fun set_venue_order_id :: "order_event \<Rightarrow> order \<Rightarrow> order" where
  "set_venue_order_id (OrderAccepted _ (Some v) _) ord = ord\<lparr>venue_order_id := Some v\<rparr>"
| "set_venue_order_id (OrderTriggered _ (Some v) _) ord = ord\<lparr>venue_order_id := Some v\<rparr>"
| "set_venue_order_id _ ord = ord"

text \<open>\<^verbatim>\<open>Order.apply\<close>: the event is logged only when no exception was raised.\<close>

definition apply_event_body :: "order_event \<Rightarrow> order \<Rightarrow> order outcome" where
  "apply_event_body event ord =
     (case event of
        OrderFilled f \<Rightarrow> apply_filled f ord
      | OrderUpdated _ _ q p t _ \<Rightarrow> apply_updated q p t ord
      | _ \<Rightarrow>
          (case EVENT_TO_STATUS event of
             None \<Rightarrow> (Some UnknownEventType, ord)
           | Some new_status \<Rightarrow>
               (case transition new_status ord of
                  (Some e, o1) \<Rightarrow> (Some e, o1)
                | (None, o1) \<Rightarrow> (None, set_venue_order_id event o1))))"

definition apply_event :: "order_event \<Rightarrow> order \<Rightarrow> order outcome" where
  "apply_event event ord =
     (case apply_event_body event ord of
        (Some e, o1) \<Rightarrow> (Some e, o1)
      | (None, o1) \<Rightarrow> (None, o1\<lparr>events := events o1 @ [event], ts_last := ts_event event\<rparr>))"





text \<open>
  \<^verbatim>\<open>Order.__init__\<close> for an order without contingency and without type-specific
  fields; the subclasses set \<open>price\<close> and \<open>trigger_price\<close> afterwards.
\<close>

definition Order_init ::
  "order_class \<Rightarrow> client_order_id \<Rightarrow> order_side \<Rightarrow> order_type_t \<Rightarrow> qty \<Rightarrow> time_in_force_t
     \<Rightarrow> int \<Rightarrow> order" where
  "Order_init c coid sd ot q tif ts =
     \<lparr>cls = c, client_order_id = coid, venue_order_id = None, side = sd, order_type = ot,
      quantity = q, time_in_force = tif, post_only = False,
      contingency_type = NO_CONTINGENCY, order_list_id = None, status = INITIALIZED,
      filled_qty = qty_zero (qty_precision q),
      leaves_qty = Quantity (qty_value q) (qty_precision q), avg_px = 0,
      position_id = None, events = [OrderInitialized coid ts], ts_last = ts,
      price = None, trigger_price = None, trailing_offset = 0,
      trailing_offset_type = PRICE, extreme_price = None, is_triggered = False,
      is_activated = False, limit_offset = 0\<rparr>"

text \<open>
  A sequence of events applied to one order. As in the execution engine, an event whose
  application raises is dropped and the next one is applied to the order as it then is.
\<close>

fun apply_events :: "order_event list \<Rightarrow> order \<Rightarrow> order" where
  "apply_events [] ord = ord"
| "apply_events (e # es) ord = apply_events es (snd (apply_event e ord))"

definition qty_invariant :: "order \<Rightarrow> bool" where
  "qty_invariant ord \<longleftrightarrow>
     qty_value (filled_qty ord) + qty_value (leaves_qty ord) = qty_value (quantity ord)"

text \<open>
  Quantities of an order that are written with the digits of its own precision, and add up.
\<close>

definition order_wf :: "order \<Rightarrow> bool" where
  "order_wf ord \<longleftrightarrow>
     on_grid (qty_precision (quantity ord)) (qty_value (quantity ord)) \<and>
     on_grid (qty_precision (quantity ord)) (qty_value (filled_qty ord)) \<and>
     qty_invariant ord"






definition market_buy_10 :: order where
  "market_buy_10 = Order_init MarketOrder ''O-1'' BUY MARKET (Quantity 10 0) GTC 1"



section \<open>Positions (model/position.py)\<close>

text \<open>
  The identifiers of the position and the unrealized PnL, which no fill reads, are left
  out. \<open>fills\<close> is the list \<^verbatim>\<open>events\<close> of the source.
\<close>

record position =
  multiplier :: decimal
  signed_qty :: decimal
  buy_qty :: decimal
  sell_qty :: decimal
  buy_cost :: decimal
  sell_cost :: decimal
  realized_pnl :: decimal
  commissions :: decimal
  fills :: "order_filled list"
  trade_ids :: "string list"
  opening_order_id :: client_order_id
  closing_order_id :: "client_order_id option"
  ts_opened :: int
  ts_closed :: "int option"
  pos_ts_last :: int

definition avg_px_open :: "position \<Rightarrow> decimal" where
  "avg_px_open pos =
     (if signed_qty pos > 0 then (if buy_qty pos \<noteq> 0 then buy_cost pos / buy_qty pos else 0)
      else if signed_qty pos < 0
        then (if sell_qty pos \<noteq> 0 then sell_cost pos / sell_qty pos else 0)
      else 0)"

definition pos_is_closed :: "position \<Rightarrow> bool" where
  "pos_is_closed pos \<longleftrightarrow> signed_qty pos = 0 \<and> fills pos \<noteq> []"

text \<open>\<^verbatim>\<open>Position._apply_fill\<close>; every side but \<^verbatim>\<open>BUY\<close> takes the \<^verbatim>\<open>else\<close> branch.\<close>

definition pos_apply_fill :: "order_filled \<Rightarrow> position \<Rightarrow> position" where
  "pos_apply_fill event pos =
     (let q = qty_value (last_qty event);
          px = px_value (last_px event);
          comm = amount (commission event);
          p1 = pos\<lparr>commissions := commissions pos + comm,
                   trade_ids := trade_ids pos @ [fill_trade_id event]\<rparr>;
          p2 = (if fill_order_side event = BUY then
                  (let p1a = (if signed_qty p1 < 0 then
                                (let close_qty = min q \<bar>signed_qty p1\<bar>;
                                     realized = close_qty * (avg_px_open p1 - px) * multiplier p1
                                 in p1\<lparr>realized_pnl := realized_pnl p1 + (realized - comm)\<rparr>)
                              else p1)
                   in p1a\<lparr>signed_qty := signed_qty p1a + q,
                          buy_qty := buy_qty p1a + q,
                          buy_cost := buy_cost p1a + q * px\<rparr>)
                else
                  (let p1a = (if signed_qty p1 > 0 then
                                (let close_qty = min q (signed_qty p1);
                                     realized = close_qty * (px - avg_px_open p1) * multiplier p1
                                 in p1\<lparr>realized_pnl := realized_pnl p1 + (realized - comm)\<rparr>)
                              else p1)
                   in p1a\<lparr>signed_qty := signed_qty p1a - q,
                          sell_qty := sell_qty p1a + q,
                          sell_cost := sell_cost p1a + q * px\<rparr>))
      in if signed_qty p2 = 0 \<and> \<not> pos_is_closed p2
         then p2\<lparr>ts_closed := Some (fill_ts_event event),
                 closing_order_id := Some (fill_client_order_id event)\<rparr>
         else p2)"





section \<open>Accounts (venues/account.py) and the account update of the exchange\<close>







text \<open>
  \<^verbatim>\<open>SimulatedExchange.__init__\<close> for a cash account with one starting balance, and
  \<^verbatim>\<open>add_instrument\<close>.
\<close>

definition USD :: currency where
  "USD = \<lparr>code = ''USD'', cur_precision = 2\<rparr>"









section \<open>Message bus (core/msgbus.py)\<close>

text \<open>
  A handler is a callable that acts on the rest of the program, the world \<open>'w\<close>, and may
  raise. Handlers are taken not to subscribe or unsubscribe while a message is being
  dispatched, so the bus is the same before and after a handler runs.
\<close>

record ('m, 'w) subscription =
  sub_topic :: string
  handler :: "'m \<Rightarrow> 'w \<Rightarrow> 'w outcome"
  sub_id :: string






text \<open>
  A \<^verbatim>\<open>for sub in list(subs): sub.handler(message)\<close> loop: the first exception ends it.
\<close>

fun run_handlers :: "('m, 'w) subscription list \<Rightarrow> 'm \<Rightarrow> 'w \<Rightarrow> 'w outcome" where
  "run_handlers [] msg w = (None, w)"
| "run_handlers (s # ss) msg w =
     (case handler s msg w of
        (Some e, w') \<Rightarrow> (Some e, w')
      | (None, w') \<Rightarrow> run_handlers ss msg w')"




section \<open>Data engine (engine/data_engine.py) and event loop (backtest/engine.py)\<close>
















section \<open>Instruments, fee and fill models (model/instruments/base.py, venues/models.py)\<close>

record instrument =
  inst_id :: string
  venue :: string
  quote_currency :: currency
  is_inverse :: bool
  price_precision :: nat
  price_increment :: price
  inst_multiplier :: qty
  maker_fee :: decimal
  taker_fee :: decimal

text \<open>\<^verbatim>\<open>Instrument.notional_value\<close>; dividing by a zero price raises.\<close>

definition notional_value :: "instrument \<Rightarrow> qty \<Rightarrow> price \<Rightarrow> error + decimal" where
  "notional_value inst q px =
     (if is_inverse inst
      then (if px_value px = 0 then Inl ZeroDivision
            else Inr (qty_value q / px_value px * qty_value (inst_multiplier inst)))
      else Inr (qty_value q * px_value px * qty_value (inst_multiplier inst)))"

datatype fee_model_t =
    MakerTakerFeeModel | FixedFeeModel money | PerShareFeeModel money | ZeroFeeModel

text \<open>\<^verbatim>\<open>FeeModel.calculate\<close> of the four fee models.\<close>

fun fee_calculate ::
  "fee_model_t \<Rightarrow> qty \<Rightarrow> price \<Rightarrow> instrument \<Rightarrow> liquidity_side_t \<Rightarrow> error + money" where
  "fee_calculate MakerTakerFeeModel q px inst ls =
     (let rate = (if ls = MAKER then maker_fee inst else taker_fee inst)
      in case notional_value inst q px of
           Inl e \<Rightarrow> Inl e
         | Inr notional \<Rightarrow> Inr (Money (notional * rate) (quote_currency inst)))"
| "fee_calculate (FixedFeeModel fee) q px inst ls = Inr fee"
| "fee_calculate (PerShareFeeModel fee) q px inst ls =
     Inr (Money (amount fee * qty_value q) (money_currency fee))"
| "fee_calculate ZeroFeeModel q px inst ls = Inr (Money 0 (quote_currency inst))"

text \<open>
  The fill model with its random generator. The generator is a deterministic function of
  its state: the \<open>n\<close>-th call returns \<open>next_random n\<close> for \<^verbatim>\<open>random()\<close> (a number in
  \<open>[0, 1)\<close>) and \<open>next_randint n m\<close> for \<^verbatim>\<open>randint(1, m)\<close>. The probabilities, floats
  in the source, are rationals here.
\<close>

record fill_model_t =
  prob_slippage :: decimal
  max_slippage_ticks :: int
  next_random :: "nat \<Rightarrow> decimal"
  next_randint :: "nat \<Rightarrow> int \<Rightarrow> int"
  rng_pos :: nat

text \<open>\<^verbatim>\<open>FillModel.apply_slippage\<close>; \<^verbatim>\<open>randint(1, m)\<close> raises when \<open>m < 1\<close>.\<close>

definition apply_slippage ::
  "fill_model_t \<Rightarrow> price \<Rightarrow> order_side \<Rightarrow> instrument \<Rightarrow> error + (price \<times> fill_model_t)" where
  "apply_slippage fm px sd inst =
     (if prob_slippage fm > 0 then
        (let u = next_random fm (rng_pos fm);
             fm1 = fm\<lparr>rng_pos := rng_pos fm + 1\<rparr>
         in if u < prob_slippage fm then
              (if max_slippage_ticks fm1 < 1 then Inl EmptyRange
               else
                 (let ticks = next_randint fm1 (rng_pos fm1) (max_slippage_ticks fm1);
                      fm2 = fm1\<lparr>rng_pos := rng_pos fm1 + 1\<rparr>;
                      offset = px_value (price_increment inst) * of_int ticks
                  in if sd = BUY
                     then Inr (Price (px_value px + offset) (price_precision inst), fm2)
                     else Inr (Price (px_value px - offset) (price_precision inst), fm2)))
            else Inr (px, fm1))
      else Inr (px, fm))"

section \<open>Order book (model/data.py)\<close>

text \<open>
  Each side of the book is a dict from price to size with a sorted list of its prices,
  kept in step by \<^verbatim>\<open>_update_level\<close> and \<^verbatim>\<open>_delete_level\<close>; here it is one list of
  (price, size) pairs in ascending order of price.
\<close>

record order_book =
  bid_levels :: "(decimal \<times> decimal) list"
  ask_levels :: "(decimal \<times> decimal) list"

definition best_bid_price :: "order_book \<Rightarrow> decimal option" where
  "best_bid_price b = (if bid_levels b = [] then None else Some (fst (last (bid_levels b))))"

definition best_ask_price :: "order_book \<Rightarrow> decimal option" where
  "best_ask_price b = (case ask_levels b of [] \<Rightarrow> None | l # _ \<Rightarrow> Some (fst l))"

text \<open>\<^verbatim>\<open>bids()\<close> and \<^verbatim>\<open>asks()\<close> with the default depth of 10, best level first.\<close>

definition bids :: "order_book \<Rightarrow> (decimal \<times> decimal) list" where
  "bids b = take 10 (rev (bid_levels b))"

definition asks :: "order_book \<Rightarrow> (decimal \<times> decimal) list" where
  "asks b = take 10 (ask_levels b)"

text \<open>The loop of \<^verbatim>\<open>simulate_market_fill\<close>.\<close>

fun sweep :: "(decimal \<times> decimal) list \<Rightarrow> decimal \<Rightarrow> (decimal \<times> decimal) list" where
  "sweep [] remaining = []"
| "sweep ((px, avail) # levels) remaining =
     (if remaining \<le> 0 then []
      else (let fill_qty = min remaining avail
            in (px, fill_qty) # sweep levels (remaining - fill_qty)))"

definition simulate_market_fill ::
  "order_book \<Rightarrow> order_side \<Rightarrow> decimal \<Rightarrow> (decimal \<times> decimal) list" where
  "simulate_market_fill b sd q = sweep (if sd = BUY then asks b else bids b) q"

section \<open>Matching engine (engine/matching_engine.py)\<close>

text \<open>Decimal digits of a counter, for the identifiers the engine makes up.\<close>

definition digit_char :: "nat \<Rightarrow> char" where
  "digit_char d = char_of (48 + d)"

function digits_acc :: "nat \<Rightarrow> string \<Rightarrow> string" where
  "digits_acc n acc =
     (if n < 10 then digit_char n # acc
      else digits_acc (n div 10) (digit_char (n mod 10) # acc))"
  by pat_completeness auto
termination
  by (relation "measure fst") auto

definition string_of_nat :: "nat \<Rightarrow> string" where
  "string_of_nat n = digits_acc n []"

text \<open>
  The engine holds references to order objects that the caller and the three queues
  share. \<open>orders\<close> is the store of these objects, addressed by client order id (one
  object per id); a queue is the list of the keys of its dict in insertion order. The
  four callbacks are constructor parameters: the model appends each event handed to a
  callback to \<open>emitted\<close> and takes the callbacks not to touch the engine or its orders.
  \<^verbatim>\<open>last_bid\<close> and \<^verbatim>\<open>last_ask\<close>, which no modelled function reads, are left out.
\<close>

record engine =
  instrument :: instrument
  fill_model :: fill_model_t
  fee_model :: fee_model_t
  book :: order_book
  orders :: "client_order_id \<rightharpoonup> order"
  resting :: "client_order_id list"
  stops :: "client_order_id list"
  trailing_stops :: "client_order_id list"
  trade_count :: nat
  venue_order_count :: nat
  last_price :: "price option"
  contingency_groups :: "(string \<times> client_order_id list) list"
  emitted :: "order_event list"

text \<open>\<^verbatim>\<open>d[k] = v\<close> and \<^verbatim>\<open>d.pop(k, None)\<close> on the keys of a queue.\<close>

definition dict_put :: "client_order_id \<Rightarrow> client_order_id list \<Rightarrow> client_order_id list" where
  "dict_put k ks = (if k \<in> set ks then ks else ks @ [k])"

definition dict_pop :: "client_order_id \<Rightarrow> client_order_id list \<Rightarrow> client_order_id list" where
  "dict_pop k ks = removeAll k ks"

text \<open>Run the second step on the engine the first one leaves, unless the first raised.\<close>

definition and_then :: "engine outcome \<Rightarrow> (engine \<Rightarrow> engine outcome) \<Rightarrow> engine outcome" where
  "and_then r f = (case r of (Some e, eng) \<Rightarrow> (Some e, eng) | (None, eng) \<Rightarrow> f eng)"

text \<open>\<^verbatim>\<open>order.apply(event)\<close> followed by the callback, for an order of the store.\<close>

definition apply_and_emit :: "client_order_id \<Rightarrow> order_event \<Rightarrow> engine \<Rightarrow> engine outcome" where
  "apply_and_emit coid event eng =
     (case orders eng coid of
        None \<Rightarrow> (None, eng)
      | Some ord \<Rightarrow>
          (case apply_event event ord of
             (Some e, ord1) \<Rightarrow> (Some e, eng\<lparr>orders := (orders eng)(coid \<mapsto> ord1)\<rparr>)
           | (None, ord1) \<Rightarrow>
               (None, eng\<lparr>orders := (orders eng)(coid \<mapsto> ord1),
                          emitted := emitted eng @ [event]\<rparr>)))"

text \<open>\<^verbatim>\<open>_fire_cancel\<close> and \<^verbatim>\<open>_fire_triggered\<close>.\<close>

definition fire_cancel :: "client_order_id \<Rightarrow> int \<Rightarrow> engine \<Rightarrow> engine outcome" where
  "fire_cancel coid ts eng =
     (case orders eng coid of
        None \<Rightarrow> (None, eng)
      | Some ord \<Rightarrow> apply_and_emit coid (OrderCanceled coid (venue_order_id ord) ts) eng)"

definition fire_triggered :: "client_order_id \<Rightarrow> int \<Rightarrow> engine \<Rightarrow> engine outcome" where
  "fire_triggered coid ts eng =
     (case orders eng coid of
        None \<Rightarrow> (None, eng)
      | Some ord \<Rightarrow> apply_and_emit coid (OrderTriggered coid (venue_order_id ord) ts) eng)"

text \<open>
  The loop of \<^verbatim>\<open>_handle_contingency_fill\<close>: a sibling is popped from the first queue
  that holds it and canceled when it is open.
\<close>

fun cancel_siblings ::
  "client_order_id \<Rightarrow> client_order_id list \<Rightarrow> int \<Rightarrow> engine \<Rightarrow> engine outcome" where
  "cancel_siblings coid [] ts eng = (None, eng)"
| "cancel_siblings coid (sid # sids) ts eng =
     (if sid = coid then cancel_siblings coid sids ts eng
      else
        (let found = (sid \<in> set (resting eng) \<or> sid \<in> set (stops eng)
                        \<or> sid \<in> set (trailing_stops eng));
             eng1 = (if sid \<in> set (resting eng) then eng\<lparr>resting := dict_pop sid (resting eng)\<rparr>
                     else if sid \<in> set (stops eng) then eng\<lparr>stops := dict_pop sid (stops eng)\<rparr>
                     else eng\<lparr>trailing_stops := dict_pop sid (trailing_stops eng)\<rparr>)
         in case (if found then orders eng1 sid else None) of
              None \<Rightarrow> cancel_siblings coid sids ts eng1
            | Some sibling \<Rightarrow>
                (if is_open sibling
                 then and_then (fire_cancel sid ts eng1) (cancel_siblings coid sids ts)
                 else cancel_siblings coid sids ts eng1)))"

definition handle_contingency_fill :: "client_order_id \<Rightarrow> int \<Rightarrow> engine \<Rightarrow> engine outcome" where
  "handle_contingency_fill coid ts eng =
     (case orders eng coid of
        None \<Rightarrow> (None, eng)
      | Some ord \<Rightarrow>
          (if contingency_type ord = OCO then
             (case order_list_id ord of
                None \<Rightarrow> (None, eng)
              | Some gid \<Rightarrow>
                  cancel_siblings coid
                    (case map_of (contingency_groups eng) gid of None \<Rightarrow> [] | Some g \<Rightarrow> g)
                    ts eng)
           else (None, eng)))"

text \<open>\<^verbatim>\<open>_fire_fill\<close>: the fill is clamped to the quantity the order has left.\<close>

definition fire_fill ::
  "client_order_id \<Rightarrow> price \<Rightarrow> decimal \<Rightarrow> liquidity_side_t \<Rightarrow> int \<Rightarrow> engine \<Rightarrow> engine outcome" where
  "fire_fill coid fill_px fill_qty_d lside ts eng =
     (case orders eng coid of
        None \<Rightarrow> (None, eng)
      | Some ord \<Rightarrow>
          (if is_closed ord \<or> \<not> is_open ord then (None, eng)
           else
             (let eng1 = eng\<lparr>trade_count := trade_count eng + 1\<rparr>;
                  fill_qty = Quantity (min fill_qty_d (qty_value (leaves_qty ord)))
                               (qty_precision (quantity ord))
              in if qty_is_zero fill_qty then (None, eng1)
                 else
                   (let eng2 = eng1\<lparr>venue_order_count := venue_order_count eng1 + 1\<rparr>;
                        void = (case venue_order_id ord of
                                  Some v \<Rightarrow> v
                                | None \<Rightarrow> ''V-'' @ venue (instrument eng2) @ ''-''
                                           @ string_of_nat (venue_order_count eng2));
                        tid = ''T-'' @ venue (instrument eng2) @ ''-''
                              @ string_of_nat (trade_count eng2)
                    in case fee_calculate (fee_model eng2) fill_qty fill_px (instrument eng2) lside of
                         Inl e \<Rightarrow> (Some e, eng2)
                       | Inr comm \<Rightarrow>
                           (let event =
                                  \<lparr>fill_instrument_id = inst_id (instrument eng2),
                                   fill_client_order_id = coid,
                                   fill_venue_order_id = Some void,
                                   fill_trade_id = tid,
                                   fill_order_side = side ord,
                                   fill_order_type = order_type ord,
                                   last_qty = fill_qty,
                                   last_px = fill_px,
                                   commission = comm,
                                   liquidity_side = lside,
                                   fill_position_id = None,
                                   fill_ts_event = ts\<rparr>
                            in and_then (apply_and_emit coid (OrderFilled event) eng2)
                                 (\<lambda>eng3. case orders eng3 coid of
                                            None \<Rightarrow> (None, eng3)
                                          | Some ord3 \<Rightarrow>
                                              if is_filled ord3
                                              then handle_contingency_fill coid ts eng3
                                              else (None, eng3)))))))"

text \<open>The trigger predicates.\<close>

definition is_stop_triggered :: "order \<Rightarrow> price option \<Rightarrow> bool" where
  "is_stop_triggered ord p =
     (case p of
        None \<Rightarrow> False
      | Some px \<Rightarrow>
          if \<not> has_trigger_price (cls ord) then False
          else (case trigger_price ord of
                  None \<Rightarrow> False
                | Some tp \<Rightarrow>
                    if side ord = BUY then px_value px \<ge> px_value tp
                    else px_value px \<le> px_value tp))"

definition is_mit_triggered :: "order \<Rightarrow> price option \<Rightarrow> bool" where
  "is_mit_triggered ord p =
     (case p of
        None \<Rightarrow> False
      | Some px \<Rightarrow>
          if \<not> has_trigger_price (cls ord) then False
          else (case trigger_price ord of
                  None \<Rightarrow> False
                | Some tp \<Rightarrow>
                    if side ord = BUY then px_value px \<le> px_value tp
                    else px_value px \<ge> px_value tp))"

text \<open>Reading \<^verbatim>\<open>order.price.value\<close>: it raises for an order without a price.\<close>

definition price_value :: "order \<Rightarrow> error + decimal" where
  "price_value ord =
     (if \<not> has_price (cls ord) then Inl AttributeError
      else (case price ord of None \<Rightarrow> Inl AttributeError | Some p \<Rightarrow> Inr (px_value p)))"

definition would_fill_immediately :: "order \<Rightarrow> order_book \<Rightarrow> error + bool" where
  "would_fill_immediately ord b =
     (if side ord = BUY then
        (case best_ask_price b of
           None \<Rightarrow> Inr False
         | Some ask \<Rightarrow> (case price_value ord of Inl e \<Rightarrow> Inl e | Inr lp \<Rightarrow> Inr (lp \<ge> ask)))
      else
        (case best_bid_price b of
           None \<Rightarrow> Inr False
         | Some bid \<Rightarrow> (case price_value ord of Inl e \<Rightarrow> Inl e | Inr lp \<Rightarrow> Inr (lp \<le> bid))))"

text \<open>
  The fill loop of \<^verbatim>\<open>_match_market\<close>. The slippage of the fill model is computed (and
  the random generator advanced), but the fill is fired at \<^verbatim>\<open>Price(px_d, ...)\<close>, the
  price of the level.
\<close>

fun match_market_loop ::
  "client_order_id \<Rightarrow> (decimal \<times> decimal) list \<Rightarrow> int \<Rightarrow> engine \<Rightarrow> engine outcome" where
  "match_market_loop coid [] ts eng = (None, eng)"
| "match_market_loop coid ((px_d, qty_d) # planned) ts eng =
     (case orders eng coid of
        None \<Rightarrow> (None, eng)
      | Some ord \<Rightarrow>
          (if qty_is_zero (leaves_qty ord) then (None, eng)
           else
             (let fill_qty = min qty_d (qty_value (leaves_qty ord));
                  px = Price px_d (price_precision (instrument eng))
              in case apply_slippage (fill_model eng) px (side ord) (instrument eng) of
                   Inl e \<Rightarrow> (Some e, eng)
                 | Inr (px1, fm1) \<Rightarrow>
                     and_then
                       (fire_fill coid (Price px_d (price_precision (instrument eng))) fill_qty
                          TAKER ts (eng\<lparr>fill_model := fm1\<rparr>))
                       (match_market_loop coid planned ts))))"

text \<open>\<^verbatim>\<open>_match_market\<close>.\<close>

definition match_market :: "client_order_id \<Rightarrow> int \<Rightarrow> engine \<Rightarrow> engine outcome" where
  "match_market coid ts eng =
     (case orders eng coid of
        None \<Rightarrow> (None, eng)
      | Some ord \<Rightarrow>
          (let planned = simulate_market_fill (book eng) (side ord) (qty_value (leaves_qty ord))
           in if time_in_force ord = FOK
                 \<and> sum_list (map snd planned) < qty_value (leaves_qty ord)
              then fire_cancel coid ts eng
              else and_then (match_market_loop coid planned ts eng)
                     (\<lambda>eng1. case orders eng1 coid of
                                None \<Rightarrow> (None, eng1)
                              | Some ord1 \<Rightarrow>
                                  if time_in_force ord1 = IOC \<and> \<not> qty_is_zero (leaves_qty ord1)
                                  then fire_cancel coid ts eng1
                                  else (None, eng1))))"

text \<open>
  The two loops of \<^verbatim>\<open>_fill_limit\<close>, over the asks for a buy and over the bids for
  any other side. The boolean that \<^verbatim>\<open>_fill_limit\<close> returns is used by no caller and
  is not modelled.
\<close>

fun fill_limit_buy ::
  "client_order_id \<Rightarrow> (decimal \<times> decimal) list \<Rightarrow> int \<Rightarrow> liquidity_side_t \<Rightarrow> engine
     \<Rightarrow> engine outcome" where
  "fill_limit_buy coid [] ts lside eng = (None, eng)"
| "fill_limit_buy coid ((px_d, avail) # levels) ts lside eng =
     (case orders eng coid of
        None \<Rightarrow> (None, eng)
      | Some ord \<Rightarrow>
          (case price_value ord of
             Inl e \<Rightarrow> (Some e, eng)
           | Inr lp \<Rightarrow>
               if px_d > lp then (None, eng)
               else if qty_is_zero (leaves_qty ord) then (None, eng)
               else and_then
                      (fire_fill coid (Price (min px_d lp) (price_precision (instrument eng)))
                         (min avail (qty_value (leaves_qty ord))) lside ts eng)
                      (fill_limit_buy coid levels ts lside)))"

fun fill_limit_sell ::
  "client_order_id \<Rightarrow> (decimal \<times> decimal) list \<Rightarrow> int \<Rightarrow> liquidity_side_t \<Rightarrow> engine
     \<Rightarrow> engine outcome" where
  "fill_limit_sell coid [] ts lside eng = (None, eng)"
| "fill_limit_sell coid ((px_d, avail) # levels) ts lside eng =
     (case orders eng coid of
        None \<Rightarrow> (None, eng)
      | Some ord \<Rightarrow>
          (case price_value ord of
             Inl e \<Rightarrow> (Some e, eng)
           | Inr lp \<Rightarrow>
               if px_d < lp then (None, eng)
               else if qty_is_zero (leaves_qty ord) then (None, eng)
               else and_then
                      (fire_fill coid (Price (max px_d lp) (price_precision (instrument eng)))
                         (min avail (qty_value (leaves_qty ord))) lside ts eng)
                      (fill_limit_sell coid levels ts lside)))"

definition fill_limit ::
  "client_order_id \<Rightarrow> int \<Rightarrow> liquidity_side_t \<Rightarrow> engine \<Rightarrow> engine outcome" where
  "fill_limit coid ts lside eng =
     (case orders eng coid of
        None \<Rightarrow> (None, eng)
      | Some ord \<Rightarrow>
          if \<not> has_price (cls ord) then (None, eng)
          else if last_price eng = None \<and> best_bid_price (book eng) = None then (None, eng)
          else if side ord = BUY then fill_limit_buy coid (asks (book eng)) ts lside eng
          else fill_limit_sell coid (bids (book eng)) ts lside eng)"

text \<open>
  \<^verbatim>\<open>_match_limit_or_rest\<close>. A post-only order that would cross is handed to the cancel
  callback without being applied to the order.
\<close>

definition match_limit_or_rest :: "client_order_id \<Rightarrow> int \<Rightarrow> engine \<Rightarrow> engine outcome" where
  "match_limit_or_rest coid ts eng =
     (case orders eng coid of
        None \<Rightarrow> (None, eng)
      | Some ord \<Rightarrow>
          (let go = (\<lambda>eng0.
                 and_then (fill_limit coid ts TAKER eng0)
                   (\<lambda>eng1. case orders eng1 coid of
                              None \<Rightarrow> (None, eng1)
                            | Some ord1 \<Rightarrow>
                                if \<not> qty_is_zero (leaves_qty ord1) \<and> \<not> is_closed ord1 then
                                  (if time_in_force ord1 = IOC then fire_cancel coid ts eng1
                                   else if time_in_force ord1 = FOK then fire_cancel coid ts eng1
                                   else (None, eng1\<lparr>resting := dict_put coid (resting eng1)\<rparr>))
                                else (None, eng1)))
           in if post_only ord then
                (case would_fill_immediately ord (book eng) of
                   Inl e \<Rightarrow> (Some e, eng)
                 | Inr True \<Rightarrow>
                     (None, eng\<lparr>emitted := emitted eng
                                   @ [OrderCanceled coid (venue_order_id ord) ts]\<rparr>)
                 | Inr False \<Rightarrow> go eng)
              else go eng))"

text \<open>\<^verbatim>\<open>_convert_stop_limit\<close>.\<close>

definition convert_stop_limit :: "client_order_id \<Rightarrow> int \<Rightarrow> engine \<Rightarrow> engine outcome" where
  "convert_stop_limit coid ts eng =
     (case orders eng coid of
        None \<Rightarrow> (None, eng)
      | Some ord \<Rightarrow>
          and_then
            (fire_triggered coid ts (eng\<lparr>orders := (orders eng)(coid \<mapsto> ord\<lparr>is_triggered := True\<rparr>)\<rparr>))
            (\<lambda>eng1. (None, eng1\<lparr>resting := dict_put coid (resting eng1)\<rparr>)))"

text \<open>\<^verbatim>\<open>_register_contingency\<close>.\<close>

fun group_add :: "string \<Rightarrow> client_order_id \<Rightarrow> (string \<times> client_order_id list) list
    \<Rightarrow> (string \<times> client_order_id list) list" where
  "group_add gid coid [] = [(gid, [coid])]"
| "group_add gid coid ((g, ids) # gs) =
     (if g = gid then (g, if coid \<in> set ids then ids else ids @ [coid]) # gs
      else (g, ids) # group_add gid coid gs)"

definition register_contingency :: "order \<Rightarrow> engine \<Rightarrow> engine" where
  "register_contingency ord eng =
     (if contingency_type ord = NO_CONTINGENCY then eng
      else (case order_list_id ord of
              None \<Rightarrow> eng
            | Some gid \<Rightarrow>
                eng\<lparr>contingency_groups :=
                      group_add gid (client_order_id ord) (contingency_groups eng)\<rparr>))"

text \<open>
  \<^verbatim>\<open>process_order\<close>. The order object handed in becomes the object of the store under
  its client order id.
\<close>

definition process_order :: "order \<Rightarrow> int \<Rightarrow> engine \<Rightarrow> engine outcome" where
  "process_order ord ts eng =
     (let coid = client_order_id ord;
          eng0 = register_contingency ord (eng\<lparr>orders := (orders eng)(coid \<mapsto> ord)\<rparr>)
      in if order_type ord = MARKET then match_market coid ts eng0
         else if order_type ord = LIMIT then match_limit_or_rest coid ts eng0
         else if order_type ord = STOP_MARKET then
           (if is_stop_triggered ord (last_price eng0) then match_market coid ts eng0
            else (None, eng0\<lparr>stops := dict_put coid (stops eng0)\<rparr>))
         else if order_type ord = STOP_LIMIT then
           (if is_stop_triggered ord (last_price eng0) then convert_stop_limit coid ts eng0
            else (None, eng0\<lparr>stops := dict_put coid (stops eng0)\<rparr>))
         else if order_type ord \<in> {TRAILING_STOP_MARKET, TRAILING_STOP_LIMIT} then
           (None, eng0\<lparr>trailing_stops := dict_put coid (trailing_stops eng0)\<rparr>)
         else if order_type ord = MARKET_IF_TOUCHED then
           (if is_mit_triggered ord (last_price eng0) then match_market coid ts eng0
            else (None, eng0\<lparr>stops := dict_put coid (stops eng0)\<rparr>))
         else if order_type ord = LIMIT_IF_TOUCHED then
           (if is_mit_triggered ord (last_price eng0)
            then (None, eng0\<lparr>resting := dict_put coid (resting eng0)\<rparr>)
            else (None, eng0\<lparr>stops := dict_put coid (stops eng0)\<rparr>))
         else (None, eng0))"

subsection \<open>Bar traversal: \<^verbatim>\<open>_process_at_price\<close>\<close>

text \<open>Step 1 (bar open only): resting market orders are filled at the visited price.\<close>

fun fill_resting_market ::
  "client_order_id list \<Rightarrow> price \<Rightarrow> int \<Rightarrow> engine \<Rightarrow> engine outcome" where
  "fill_resting_market [] p ts eng = (None, eng)"
| "fill_resting_market (coid # ids) p ts eng =
     (case orders eng coid of
        None \<Rightarrow> fill_resting_market ids p ts eng
      | Some ord \<Rightarrow>
          and_then (fire_fill coid p (qty_value (leaves_qty ord)) TAKER ts eng)
            (\<lambda>eng1. fill_resting_market ids p ts
                       (eng1\<lparr>resting := dict_pop coid (resting eng1)\<rparr>)))"

text \<open>
  Step 2, first loop: every parked order that is no longer open is dropped, every parked
  order for which the stop predicate \<^emph>\<open>or\<close> the touch predicate holds is taken out and
  collected, whatever its type.
\<close>

fun collect_triggered ::
  "client_order_id list \<Rightarrow> price \<Rightarrow> engine \<Rightarrow> client_order_id list \<times> engine" where
  "collect_triggered [] p eng = ([], eng)"
| "collect_triggered (oid # oids) p eng =
     (case orders eng oid of
        None \<Rightarrow> collect_triggered oids p eng
      | Some ord \<Rightarrow>
          if \<not> is_open ord
          then collect_triggered oids p (eng\<lparr>stops := dict_pop oid (stops eng)\<rparr>)
          else if is_stop_triggered ord (Some p) \<or> is_mit_triggered ord (Some p)
          then (case collect_triggered oids p (eng\<lparr>stops := dict_pop oid (stops eng)\<rparr>) of
                  (trig, eng1) \<Rightarrow> (oid # trig, eng1))
          else collect_triggered oids p eng)"

text \<open>
  Step 2, second loop, for one collected order: a stop-market or market-if-touched order
  is triggered and filled at the worse of its trigger price and the visited price.
\<close>

definition stop_fill_price :: "order_side \<Rightarrow> decimal \<Rightarrow> decimal \<Rightarrow> nat \<Rightarrow> price" where
  "stop_fill_price sd tp visited prec =
     Price (if sd = BUY then max tp visited else min tp visited) prec"

definition fire_triggered_order ::
  "client_order_id \<Rightarrow> price \<Rightarrow> int \<Rightarrow> engine \<Rightarrow> engine outcome" where
  "fire_triggered_order coid p ts eng =
     (case orders eng coid of
        None \<Rightarrow> (None, eng)
      | Some ord \<Rightarrow>
          if order_type ord \<in> {STOP_MARKET, MARKET_IF_TOUCHED} then
            and_then (fire_triggered coid ts eng)
              (\<lambda>eng1. case orders eng1 coid of
                         None \<Rightarrow> (None, eng1)
                       | Some ord1 \<Rightarrow>
                           (case trigger_price ord1 of
                              None \<Rightarrow> (Some AttributeError, eng1)
                            | Some tp \<Rightarrow>
                                fire_fill coid
                                  (stop_fill_price (side ord1) (px_value tp) (px_value p)
                                     (price_precision (instrument eng1)))
                                  (qty_value (leaves_qty ord1)) TAKER ts eng1))
          else if order_type ord \<in> {STOP_LIMIT, LIMIT_IF_TOUCHED}
          then convert_stop_limit coid ts eng
          else (None, eng))"

fun fire_triggered_orders ::
  "client_order_id list \<Rightarrow> price \<Rightarrow> int \<Rightarrow> engine \<Rightarrow> engine outcome" where
  "fire_triggered_orders [] p ts eng = (None, eng)"
| "fire_triggered_orders (coid # ids) p ts eng =
     and_then (fire_triggered_order coid p ts eng) (fire_triggered_orders ids p ts)"

text \<open>
  Step 3 for one resting order. A comparison with the price of an order that has none
  raises; \<^verbatim>\<open>and\<close> and \<^verbatim>\<open>or\<close> evaluate it only where the flags and the side ask for it.
\<close>

definition check_resting_order ::
  "client_order_id \<Rightarrow> price \<Rightarrow> int \<Rightarrow> bool \<Rightarrow> bool \<Rightarrow> bool \<Rightarrow> engine \<Rightarrow> engine outcome" where
  "check_resting_order oid p ts is_open_v is_high is_low eng =
     (if oid \<notin> set (resting eng) then (None, eng)
      else
        (case orders eng oid of
           None \<Rightarrow> (None, eng\<lparr>resting := dict_pop oid (resting eng)\<rparr>)
         | Some ord \<Rightarrow>
             if \<not> is_open ord then (None, eng\<lparr>resting := dict_pop oid (resting eng)\<rparr>)
             else if \<not> has_price (cls ord) then (None, eng)
             else
               (let compares = ((is_high \<and> side ord = SELL) \<or> (is_low \<and> side ord = BUY)
                                \<or> (is_open_v \<and> (side ord = BUY \<or> side ord = SELL)))
                in case price ord of
                     None \<Rightarrow> if compares then (Some AttributeError, eng) else (None, eng)
                   | Some lp \<Rightarrow>
                       (let should_fill =
                              ((is_high \<and> side ord = SELL \<and> px_value p \<ge> px_value lp)
                               \<or> (is_low \<and> side ord = BUY \<and> px_value p \<le> px_value lp)
                               \<or> (is_open_v
                                   \<and> ((side ord = BUY \<and> px_value p \<le> px_value lp)
                                       \<or> (side ord = SELL \<and> px_value p \<ge> px_value lp))))
                        in if should_fill then
                             (let fill_px_d = (if side ord = BUY
                                               then min (px_value lp) (px_value p)
                                               else max (px_value lp) (px_value p))
                              in and_then
                                   (fire_fill oid
                                      (Price fill_px_d (price_precision (instrument eng)))
                                      (qty_value (leaves_qty ord)) MAKER ts eng)
                                   (\<lambda>eng1. case orders eng1 oid of
                                              None \<Rightarrow> (None, eng1)
                                            | Some ord1 \<Rightarrow>
                                                if is_filled ord1 \<or> is_closed ord1
                                                then (None, eng1\<lparr>resting :=
                                                        dict_pop oid (resting eng1)\<rparr>)
                                                else (None, eng1)))
                           else (None, eng)))))"

fun check_resting_orders ::
  "client_order_id list \<Rightarrow> price \<Rightarrow> int \<Rightarrow> bool \<Rightarrow> bool \<Rightarrow> bool \<Rightarrow> engine \<Rightarrow> engine outcome" where
  "check_resting_orders [] p ts is_open_v is_high is_low eng = (None, eng)"
| "check_resting_orders (oid # oids) p ts is_open_v is_high is_low eng =
     and_then (check_resting_order oid p ts is_open_v is_high is_low eng)
       (check_resting_orders oids p ts is_open_v is_high is_low)"

text \<open>\<^verbatim>\<open>_process_at_price\<close>; each loop runs over a snapshot of its queue.\<close>

definition process_at_price ::
  "price \<Rightarrow> int \<Rightarrow> bool \<Rightarrow> bool \<Rightarrow> bool \<Rightarrow> engine \<Rightarrow> engine outcome" where
  "process_at_price p ts is_open_v is_high is_low eng =
     (let eng0 = eng\<lparr>last_price := Some p\<rparr>;
          mkt_orders = filter (\<lambda>oid. case orders eng0 oid of
                                        None \<Rightarrow> False
                                      | Some ord \<Rightarrow> order_type ord = MARKET \<and> is_open ord)
                         (resting eng0)
      in and_then (if is_open_v then fill_resting_market mkt_orders p ts eng0 else (None, eng0))
           (\<lambda>eng1. case collect_triggered (stops eng1) p eng1 of
                      (trig, eng2) \<Rightarrow>
                        and_then (fire_triggered_orders trig p ts eng2)
                          (\<lambda>eng3. check_resting_orders (resting eng3) p ts
                                     is_open_v is_high is_low eng3)))"

subsection \<open>Trailing stops (model/orders/trailing_stop.py and \<^verbatim>\<open>_update_trailing_stops\<close>)\<close>

text \<open>\<^verbatim>\<open>TrailingStopMarketOrder._compute_offset\<close>.\<close>

definition compute_offset :: "order \<Rightarrow> decimal \<Rightarrow> decimal" where
  "compute_offset ord market_price =
     (if trailing_offset_type ord = PRICE then trailing_offset ord
      else if trailing_offset_type ord = BASIS_POINTS
        then market_price * trailing_offset ord / 10000
      else trailing_offset ord)"

text \<open>
  \<^verbatim>\<open>TrailingStopMarketOrder.update_trigger\<close>: the order after the update and whether it
  is to be triggered now. An order created with a trigger price starts inactive, and
  that price is its activation price.
\<close>

definition update_trigger :: "price \<Rightarrow> order \<Rightarrow> bool \<times> order" where
  "update_trigger market_price ord =
     (let mp = px_value market_price;
          o1 = (if \<not> is_activated ord then
                  (case trigger_price ord of
                     Some tp \<Rightarrow>
                       if side ord = SELL \<and> mp \<ge> px_value tp then ord\<lparr>is_activated := True\<rparr>
                       else if side ord = BUY \<and> mp \<le> px_value tp
                         then ord\<lparr>is_activated := True\<rparr>
                       else ord
                   | None \<Rightarrow> ord\<lparr>is_activated := True\<rparr>)
                else ord)
      in if \<not> is_activated o1 then (False, o1)
         else
           (let offset = compute_offset o1 mp
            in if side o1 = SELL then
                 (let o2 = (if extreme_price o1 = None \<or> mp > the (extreme_price o1) then
                              (let o1a = o1\<lparr>extreme_price := Some mp\<rparr>;
                                   new_trigger = mp - offset
                               in if trigger_price o1a = None
                                     \<or> new_trigger > px_value (the (trigger_price o1a))
                                  then o1a\<lparr>trigger_price :=
                                         Some (Price new_trigger (px_precision market_price))\<rparr>
                                  else o1a)
                            else o1)
                  in if trigger_price o2 \<noteq> None \<and> mp \<le> px_value (the (trigger_price o2))
                     then (True, o2\<lparr>is_triggered := True\<rparr>)
                     else (False, o2))
               else
                 (let o2 = (if extreme_price o1 = None \<or> mp < the (extreme_price o1) then
                              (let o1a = o1\<lparr>extreme_price := Some mp\<rparr>;
                                   new_trigger = mp + offset
                               in if trigger_price o1a = None
                                     \<or> new_trigger < px_value (the (trigger_price o1a))
                                  then o1a\<lparr>trigger_price :=
                                         Some (Price new_trigger (px_precision market_price))\<rparr>
                                  else o1a)
                            else o1)
                  in if trigger_price o2 \<noteq> None \<and> mp \<ge> px_value (the (trigger_price o2))
                     then (True, o2\<lparr>is_triggered := True\<rparr>)
                     else (False, o2))))"

text \<open>\<^verbatim>\<open>TrailingStopLimitOrder.get_limit_price\<close>.\<close>

definition get_limit_price :: "order \<Rightarrow> price option" where
  "get_limit_price ord =
     (case price ord of
        Some p \<Rightarrow> Some p
      | None \<Rightarrow>
          (case trigger_price ord of
             Some tp \<Rightarrow>
               Some (Price (if side ord = SELL then px_value tp - limit_offset ord
                            else px_value tp + limit_offset ord) (px_precision tp))
           | None \<Rightarrow> None))"

text \<open>
  The body of the loop of \<^verbatim>\<open>_update_trailing_stops\<close> for one order: when the update
  fires, a trailing stop limit order comes to rest at its limit price and a trailing
  stop market order is filled at its trigger price.
\<close>

definition update_trailing_order ::
  "client_order_id \<Rightarrow> price \<Rightarrow> int \<Rightarrow> engine \<Rightarrow> engine outcome" where
  "update_trailing_order oid market_price ts eng =
     (if oid \<notin> set (trailing_stops eng) then (None, eng)
      else
        (case orders eng oid of
           None \<Rightarrow> (None, eng\<lparr>trailing_stops := dict_pop oid (trailing_stops eng)\<rparr>)
         | Some ord \<Rightarrow>
             if \<not> is_open ord
             then (None, eng\<lparr>trailing_stops := dict_pop oid (trailing_stops eng)\<rparr>)
             else if cls ord \<in> {TrailingStopMarketOrder, TrailingStopLimitOrder} then
               (case update_trigger market_price ord of
                  (triggered, ord1) \<Rightarrow>
                    (let eng1 = eng\<lparr>orders := (orders eng)(oid \<mapsto> ord1)\<rparr>
                     in if triggered then
                          and_then
                            (fire_triggered oid ts
                               (eng1\<lparr>trailing_stops := dict_pop oid (trailing_stops eng1)\<rparr>))
                            (\<lambda>eng2. case orders eng2 oid of
                                       None \<Rightarrow> (None, eng2)
                                     | Some ord2 \<Rightarrow>
                                         if cls ord2 = TrailingStopLimitOrder then
                                           (None, eng2\<lparr>orders := (orders eng2)(oid \<mapsto>
                                                          ord2\<lparr>price := get_limit_price ord2\<rparr>),
                                                       resting := dict_put oid (resting eng2)\<rparr>)
                                         else
                                           fire_fill oid
                                             (case trigger_price ord2 of
                                                Some tp \<Rightarrow> tp | None \<Rightarrow> market_price)
                                             (qty_value (leaves_qty ord2)) TAKER ts eng2)
                        else (None, eng1)))
             else (None, eng)))"

fun update_trailing_orders ::
  "client_order_id list \<Rightarrow> price \<Rightarrow> int \<Rightarrow> engine \<Rightarrow> engine outcome" where
  "update_trailing_orders [] market_price ts eng = (None, eng)"
| "update_trailing_orders (oid # oids) market_price ts eng =
     and_then (update_trailing_order oid market_price ts eng)
       (update_trailing_orders oids market_price ts)"

definition update_trailing_stops :: "price \<Rightarrow> int \<Rightarrow> engine \<Rightarrow> engine outcome" where
  "update_trailing_stops market_price ts eng =
     update_trailing_orders (trailing_stops eng) market_price ts eng"

section \<open>Concrete inputs: the scenarios of the specification\<close>

text \<open>The instrument of the scenarios: two price digits, tick 0.01, no fees.\<close>

definition AAPL :: instrument where
  "AAPL = \<lparr>inst_id = ''AAPL.SIM'', venue = ''SIM'', quote_currency = USD, is_inverse = False,
            price_precision = 2, price_increment = Price (1 / 100) 2,
            inst_multiplier = Quantity 1 0, maker_fee = 0, taker_fee = 0\<rparr>"

text \<open>
  \<^verbatim>\<open>DefaultFillModel()\<close>, and \<^verbatim>\<open>FillModel(prob_slippage=1.0, max_slippage_ticks=1)\<close>,
  which slips every market fill by one tick whatever the generator draws.
\<close>

definition default_fill_model :: fill_model_t where
  "default_fill_model =
     \<lparr>prob_slippage = 0, max_slippage_ticks = 1, next_random = (\<lambda>n. 0),
      next_randint = (\<lambda>n m. 1), rng_pos = 0\<rparr>"

definition always_slip_model :: fill_model_t where
  "always_slip_model = default_fill_model\<lparr>prob_slippage := 1\<rparr>"

text \<open>\<^verbatim>\<open>OrderMatchingEngine.__init__\<close>, then a book with the given asks and bids.\<close>

definition new_engine :: "instrument \<Rightarrow> fill_model_t \<Rightarrow> fee_model_t \<Rightarrow> engine" where
  "new_engine inst fm fee =
     \<lparr>instrument = inst, fill_model = fm, fee_model = fee,
      book = \<lparr>bid_levels = [], ask_levels = []\<rparr>, orders = Map.empty, resting = [],
      stops = [], trailing_stops = [], trade_count = 0, venue_order_count = 0,
      last_price = None, contingency_groups = [], emitted = []\<rparr>"

definition with_book ::
  "(decimal \<times> decimal) list \<Rightarrow> (decimal \<times> decimal) list \<Rightarrow> engine \<Rightarrow> engine" where
  "with_book bs as eng = eng\<lparr>book := \<lparr>bid_levels = bs, ask_levels = as\<rparr>\<rparr>"

text \<open>An order as the venue hands it to the matching engine: submitted and accepted.\<close>

definition accepted :: "order \<Rightarrow> order" where
  "accepted ord =
     apply_events [OrderSubmitted (client_order_id ord) 1,
                   OrderAccepted (client_order_id ord) (Some ''V-SIM-1'') 1] ord"

definition fok_buy_10 :: order where
  "fok_buy_10 = accepted (Order_init MarketOrder ''O-1'' BUY MARKET (Quantity 10 0) FOK 1)"

definition thin_book_engine :: engine where
  "thin_book_engine = with_book [] [(101, 5), (102, 3)] (new_engine AAPL default_fill_model ZeroFeeModel)"

definition deep_book_engine :: engine where
  "deep_book_engine = with_book [] [(101, 5), (102, 8)] (new_engine AAPL default_fill_model ZeroFeeModel)"

definition slipping_engine :: engine where
  "slipping_engine = with_book [] [(100, 10)] (new_engine AAPL always_slip_model ZeroFeeModel)"

definition stop_sell_96 :: order where
  "stop_sell_96 =
     accepted ((Order_init StopMarketOrder ''O-2'' SELL STOP_MARKET (Quantity 10 0) GTC 1)
                 \<lparr>trigger_price := Some (Price 96 2)\<rparr>)"

text \<open>The fills among the events handed to the callbacks, as (order, quantity, price).\<close>

fun fills_of :: "order_event list \<Rightarrow> (client_order_id \<times> decimal \<times> decimal) list" where
  "fills_of [] = []"
| "fills_of (OrderFilled f # es) =
     (fill_client_order_id f, qty_value (last_qty f), px_value (last_px f)) # fills_of es"
| "fills_of (_ # es) = fills_of es"

fun cancels_of :: "order_event list \<Rightarrow> client_order_id list" where
  "cancels_of [] = []"
| "cancels_of (OrderCanceled c _ _ # es) = c # cancels_of es"
| "cancels_of (_ # es) = cancels_of es"

definition order_state :: "engine \<Rightarrow> client_order_id \<Rightarrow> (order_status \<times> decimal \<times> decimal) option" where
  "order_state eng coid =
     map_option (\<lambda>ord. (status ord, qty_value (filled_qty ord), qty_value (leaves_qty ord)))
       (orders eng coid)"

section \<open>Notions used to state the claims about the matching engine\<close>

text \<open>
  The levels a market order of a side sweeps, and the total size they offer.
\<close>

definition swept_levels :: "order_book \<Rightarrow> order_side \<Rightarrow> (decimal \<times> decimal) list" where
  "swept_levels b sd = (if sd = BUY then asks b else bids b)"

definition available :: "order_book \<Rightarrow> order_side \<Rightarrow> decimal" where
  "available b sd = sum_list (map snd (swept_levels b sd))"

text \<open>
  The sizes of a book are positive (\<^verbatim>\<open>_update_level\<close> deletes a level whose size is
  not); they suit an order when they are written with the digits of its quantity.
\<close>

definition sizes_positive :: "(decimal \<times> decimal) list \<Rightarrow> bool" where
  "sizes_positive levels \<longleftrightarrow> (\<forall>l \<in> set levels. 0 < snd l)"

definition sizes_on_grid :: "nat \<Rightarrow> (decimal \<times> decimal) list \<Rightarrow> bool" where
  "sizes_on_grid p levels \<longleftrightarrow> (\<forall>l \<in> set levels. on_grid p (snd l))"

text \<open>
  The two calls of a fill that may raise: the fee of an inverse instrument at price zero,
  and \<^verbatim>\<open>randint(1, max_slippage_ticks)\<close> with an empty range.
\<close>

definition fee_cannot_fail :: "engine \<Rightarrow> bool" where
  "fee_cannot_fail eng \<longleftrightarrow>
     (fee_model eng = MakerTakerFeeModel \<longrightarrow> \<not> is_inverse (instrument eng))"

definition slippage_cannot_fail :: "engine \<Rightarrow> bool" where
  "slippage_cannot_fail eng \<longleftrightarrow>
     prob_slippage (fill_model eng) \<le> 0 \<or> 1 \<le> max_slippage_ticks (fill_model eng)"

text \<open>What a matching step never changes: instrument, fee model, book, slippage settings.\<close>

definition same_config :: "engine \<Rightarrow> engine \<Rightarrow> bool" where
  "same_config e e' \<longleftrightarrow>
     instrument e' = instrument e \<and> fee_model e' = fee_model e \<and> book e' = book e
     \<and> prob_slippage (fill_model e') = prob_slippage (fill_model e)
     \<and> max_slippage_ticks (fill_model e') = max_slippage_ticks (fill_model e)"

section \<open>Proofs\<close>

lemma floor_rat_divide_numeral [simp]:
  "\<lfloor>numeral a / numeral b :: rat\<rfloor> = numeral a div numeral b"
  by (metis floor_divide_of_int_eq of_int_numeral)

lemma floor_rat_minus_divide_numeral [simp]:
  "\<lfloor>- (numeral a / numeral b) :: rat\<rfloor> = - numeral a div numeral b"
  by (metis divide_minus_left floor_divide_of_int_eq of_int_neg_numeral of_int_numeral)

lemma on_grid_int: "on_grid p x \<Longrightarrow> \<exists>n::int. x * 10 ^ p = of_int n"
  unfolding on_grid_def by metis


lemma quantize_on_grid: "on_grid p x \<Longrightarrow> quantize p x = x"
proof -
  assume g: "on_grid p x"
  then obtain n :: int where n: "x * 10 ^ p = of_int n" using on_grid_int by blast
  have f1: "\<lfloor>(of_int n :: rat) + 1 / 2\<rfloor> = n" by linarith
  have f2: "\<lfloor>- (of_int n :: rat) + 1 / 2\<rfloor> = - n" by linarith
  have x: "x = of_int n / 10 ^ p" using n by (simp add: field_simps)
  show ?thesis
    unfolding quantize_def using n f1 f2 x by (auto simp: field_simps)
qed

lemma on_grid_0: "on_grid p 0" by (simp add: on_grid_def)




lemma on_grid_quantize: "on_grid p (quantize p x)"
  unfolding on_grid_def quantize_def by simp

lemma quantize_0: "quantize p 0 = 0"
  by (simp add: quantize_on_grid on_grid_0)

lemma quantize_nonneg: "0 \<le> x \<Longrightarrow> 0 \<le> quantize p x"
  unfolding quantize_def by simp

lemma quantize_nonpos: "x \<le> 0 \<Longrightarrow> quantize p x \<le> 0"
proof (cases "x = 0")
  case True then show ?thesis by (simp add: quantize_0)
next
  case False
  assume "x \<le> 0"
  with False have neg: "x < 0" by simp
  then have "0 \<le> (- x) * 10 ^ p" by (intro mult_nonneg_nonneg) simp_all
  then have "0 \<le> - x * 10 ^ p + 1 / 2" by simp
  then have "0 \<le> \<lfloor>- x * 10 ^ p + 1 / 2\<rfloor>" by simp
  with neg show ?thesis unfolding quantize_def by simp
qed

lemma quantize_mono: "x \<le> y \<Longrightarrow> quantize p x \<le> quantize p y"
proof -
  assume le: "x \<le> y"
  consider "0 \<le> x" | "x < 0" "0 \<le> y" | "y < 0" using le by linarith
  then show ?thesis
  proof cases
    case 1
    then have y: "0 \<le> y" using le by simp
    have "x * 10 ^ p + 1 / 2 \<le> y * 10 ^ p + 1 / 2" using le by simp
    then have "\<lfloor>x * 10 ^ p + 1 / 2\<rfloor> \<le> \<lfloor>y * 10 ^ p + 1 / 2\<rfloor>" by (rule floor_mono)
    then show ?thesis unfolding quantize_def using 1 y by (simp add: divide_right_mono)
  next
    case 2
    then have "quantize p x \<le> 0" "0 \<le> quantize p y"
      by (simp_all add: quantize_nonpos quantize_nonneg)
    then show ?thesis by simp
  next
    case 3
    then have x: "x < 0" using le by simp
    have "- y * 10 ^ p + 1 / 2 \<le> - x * 10 ^ p + 1 / 2" using le by simp
    then have "\<lfloor>- y * 10 ^ p + 1 / 2\<rfloor> \<le> \<lfloor>- x * 10 ^ p + 1 / 2\<rfloor>" by (rule floor_mono)
    then show ?thesis unfolding quantize_def using 3 x by (simp add: divide_right_mono)
  qed
qed







lemma status_set_venue_order_id [simp]: "status (set_venue_order_id e ord) = status ord"
  by (cases "(e, ord)" rule: set_venue_order_id.cases) simp_all













lemma set_venue_order_id_frame [simp]:
  "quantity (set_venue_order_id e ord) = quantity ord"
  "filled_qty (set_venue_order_id e ord) = filled_qty ord"
  "leaves_qty (set_venue_order_id e ord) = leaves_qty ord"
  by (cases "(e, ord)" rule: set_venue_order_id.cases; simp)+

lemma order_wf_other:
  assumes "order_wf ord" "EVENT_TO_STATUS event = Some s"
  shows "order_wf (snd (case transition s ord of
                  (Some e, o1) \<Rightarrow> (Some e, o1)
                | (None, o1) \<Rightarrow> (None, set_venue_order_id event o1)))"
  using assms
  by (auto simp: transition_def Let_def order_wf_def qty_invariant_def split: option.splits)






lemma floor_rat_one_divide_numeral [simp]:
  "\<lfloor>1 / numeral b :: rat\<rfloor> = 1 div numeral b"
  by (metis floor_divide_of_int_eq of_int_1 of_int_numeral)



subsection \<open>Positions\<close>

text \<open>
  What \<^verbatim>\<open>_apply_fill\<close> does when a fill goes against the position: the realized PnL
  grows by the closed quantity times the distance of the fill price from the average
  open price, less the commission; and a first sale that overshoots a long leaves the
  fill price as the average open price of the short.
\<close>

lemma pos_close_long_realized:
  assumes "signed_qty pos > 0" "fill_order_side event \<noteq> BUY"
  shows "realized_pnl (pos_apply_fill event pos) =
           realized_pnl pos
           + (min (qty_value (last_qty event)) (signed_qty pos)
                * (px_value (last_px event) - avg_px_open pos) * multiplier pos
              - amount (commission event))"
  using assms by (simp add: pos_apply_fill_def Let_def avg_px_open_def)

lemma pos_close_short_realized:
  assumes "signed_qty pos < 0" "fill_order_side event = BUY"
  shows "realized_pnl (pos_apply_fill event pos) =
           realized_pnl pos
           + (min (qty_value (last_qty event)) \<bar>signed_qty pos\<bar>
                * (avg_px_open pos - px_value (last_px event)) * multiplier pos
              - amount (commission event))"
  using assms by (simp add: pos_apply_fill_def Let_def avg_px_open_def)

lemma pos_flip_first_sale:
  assumes "signed_qty pos > 0" "fill_order_side event \<noteq> BUY"
    "qty_value (last_qty event) > signed_qty pos" "sell_qty pos = 0" "sell_cost pos = 0"
  shows "avg_px_open (pos_apply_fill event pos) = px_value (last_px event)"
  using assms by (simp add: pos_apply_fill_def Let_def avg_px_open_def pos_is_closed_def)


subsection \<open>Account update on a fill\<close>

lemma Money_amount [simp]: "amount (Money a c) = quantize (cur_precision c) a"
  by (simp add: Money_def)








subsection \<open>Message bus and event loop\<close>




text \<open>When no handler raises, the loop over the subscriptions runs to its end.\<close>

lemma run_handlers_no_raise:
  "(\<forall>s \<in> set ss. \<forall>w. fst (handler s msg w) = None) \<Longrightarrow> fst (run_handlers ss msg w) = None"
proof (induction ss arbitrary: w)
  case Nil
  then show ?case by simp
next
  case (Cons a ss)
  from Cons.prems have a: "fst (handler a msg w) = None" by simp
  then obtain w' where w': "handler a msg w = (None, w')" by (cases "handler a msg w") simp
  from Cons.prems have "\<forall>s \<in> set ss. \<forall>w. fst (handler s msg w) = None" by simp
  from Cons.IH [OF this] w' show ?case by simp
qed




subsection \<open>The book is read, never written\<close>

lemma book_and_then:
  assumes "\<And>e. book (snd (f e)) = book e"
  shows "book (snd (and_then r f)) = book (snd r)"
  using assms by (cases r) (auto simp: and_then_def split: option.splits)

lemma book_apply_and_emit [simp]: "book (snd (apply_and_emit c ev eng)) = book eng"
  by (simp add: apply_and_emit_def split: option.splits prod.splits)

lemma book_fire_cancel [simp]: "book (snd (fire_cancel c ts eng)) = book eng"
  by (simp add: fire_cancel_def split: option.splits)

lemma book_fire_triggered [simp]: "book (snd (fire_triggered c ts eng)) = book eng"
  by (simp add: fire_triggered_def split: option.splits)

lemma book_cancel_siblings [simp]: "book (snd (cancel_siblings c sids ts eng)) = book eng"
proof (induction sids arbitrary: eng)
  case Nil
  then show ?case by simp
next
  case (Cons sid sids)
  show ?case
    by (simp add: Let_def Cons.IH book_and_then split: option.splits)
qed

lemma book_handle_contingency_fill [simp]:
  "book (snd (handle_contingency_fill c ts eng)) = book eng"
  by (simp add: handle_contingency_fill_def split: option.splits)

lemma book_fire_fill [simp]: "book (snd (fire_fill c px q ls ts eng)) = book eng"
proof -
  have k: "\<And>e. book (snd (case orders e c of None \<Rightarrow> (None, e)
                 | Some ord3 \<Rightarrow> if is_filled ord3 then handle_contingency_fill c ts e
                                else (None, e))) = book e"
    by (simp split: option.splits)
  show ?thesis
    by (simp add: fire_fill_def Let_def book_and_then [OF k] split: option.splits sum.splits)
qed

lemma book_match_market_loop [simp]:
  "book (snd (match_market_loop c planned ts eng)) = book eng"
proof (induction planned arbitrary: eng)
  case Nil
  then show ?case by simp
next
  case (Cons lv planned)
  obtain px_d qty_d where lv: "lv = (px_d, qty_d)" by (cases lv)
  show ?case
    by (simp add: lv Let_def Cons.IH book_and_then split: option.splits sum.splits prod.splits)
qed

lemma book_match_market [simp]: "book (snd (match_market c ts eng)) = book eng"
proof -
  have k: "\<And>e. book (snd (case orders e c of None \<Rightarrow> (None, e)
                 | Some ord1 \<Rightarrow> if time_in_force ord1 = IOC \<and> \<not> qty_is_zero (leaves_qty ord1)
                                then fire_cancel c ts e else (None, e))) = book e"
    by (simp split: option.splits)
  show ?thesis
    by (simp add: match_market_def Let_def book_and_then [OF k] split: option.splits)
qed

lemma book_fill_limit_buy [simp]:
  "book (snd (fill_limit_buy c levels ts ls eng)) = book eng"
proof (induction levels arbitrary: eng)
  case Nil
  then show ?case by simp
next
  case (Cons lv levels)
  obtain px_d avail where lv: "lv = (px_d, avail)" by (cases lv)
  show ?case
    by (simp add: lv Cons.IH book_and_then split: option.splits sum.splits)
qed

lemma book_fill_limit_sell [simp]:
  "book (snd (fill_limit_sell c levels ts ls eng)) = book eng"
proof (induction levels arbitrary: eng)
  case Nil
  then show ?case by simp
next
  case (Cons lv levels)
  obtain px_d avail where lv: "lv = (px_d, avail)" by (cases lv)
  show ?case
    by (simp add: lv Cons.IH book_and_then split: option.splits sum.splits)
qed

lemma book_fill_limit [simp]: "book (snd (fill_limit c ts ls eng)) = book eng"
  by (simp add: fill_limit_def split: option.splits)

lemma book_match_limit_or_rest [simp]: "book (snd (match_limit_or_rest c ts eng)) = book eng"
proof -
  have k: "\<And>e. book (snd (case orders e c of None \<Rightarrow> (None, e)
             | Some ord1 \<Rightarrow>
                 if \<not> qty_is_zero (leaves_qty ord1) \<and> \<not> is_closed ord1 then
                   (if time_in_force ord1 = IOC then fire_cancel c ts e
                    else if time_in_force ord1 = FOK then fire_cancel c ts e
                    else (None, e\<lparr>resting := dict_put c (resting e)\<rparr>))
                 else (None, e))) = book e"
    by (simp split: option.splits)
  show ?thesis
    by (simp add: match_limit_or_rest_def Let_def book_and_then [OF k]
          split: option.splits sum.splits bool.splits)
qed

lemma book_convert_stop_limit [simp]: "book (snd (convert_stop_limit c ts eng)) = book eng"
  by (simp add: convert_stop_limit_def book_and_then split: option.splits)

lemma book_register_contingency [simp]: "book (register_contingency ord eng) = book eng"
  by (simp add: register_contingency_def split: option.splits)

text \<open>
  Claim C10. Whatever order comes in and whatever state the engine is in, the book after
  \<^verbatim>\<open>process_order\<close> is the book before it, also when the call raises. So a sweep of
  the book gives the same levels and sizes after the call as before it, and two orders
  that come in one after the other meet the same book.
\<close>

theorem C10_process_order_leaves_book:
  "book (snd (process_order ord ts eng)) = book eng
   \<and> simulate_market_fill (book (snd (process_order ord ts eng))) sd q
       = simulate_market_fill (book eng) sd q
   \<and> book (snd (process_order ord2 ts2 (snd (process_order ord ts eng)))) = book eng"
  by (simp add: process_order_def Let_def)

subsection \<open>Slippage of market fills\<close>

text \<open>
  Claim C8 says that a market fill carries the slippage-adjusted price of the fill model.
  \<^verbatim>\<open>_match_market\<close> calls \<^verbatim>\<open>apply_slippage\<close> and then fires the fill at
  \<^verbatim>\<open>Price(px_d, ...)\<close>, the price of the level. With a fill model that always slips by
  one tick, a market buy of 10 against an ask of 100 is filled at 100, not at 100.01; the
  generator has been advanced twice, so the slippage was drawn and dropped.
\<close>

theorem C8_slippage_discarded:
  "map_sum id (\<lambda>r. px_value (fst r)) (apply_slippage always_slip_model (Price 100 2) BUY AAPL)
     = Inr (10001 / 100)
   \<and> fst (process_order (accepted market_buy_10) 2 slipping_engine) = None
   \<and> fills_of (emitted (snd (process_order (accepted market_buy_10) 2 slipping_engine)))
       = [(''O-1'', 10, 100)]
   \<and> rng_pos (fill_model (snd (process_order (accepted market_buy_10) 2 slipping_engine))) = 2"
  by code_simp

end
